theory Spec2Isabelle
  imports Main
begin

section \<open>Python strings\<close>

text \<open>
  A Python \<open>str\<close> is a sequence of Unicode code points, and \<open>len\<close> counts code points.
  A string is therefore modelled as a list of code points; \<open>lit\<close> embeds the ASCII
  literals of the source.
\<close>

type_synonym pystr = "nat list"

definition lit :: "string \<Rightarrow> pystr" where
  "lit s = map of_char s"

text \<open>
  The characters that \<open>str.split()\<close> and \<open>str.strip()\<close> treat as whitespace
  (CPython's \<open>Py_UNICODE_ISSPACE\<close>): U+0009..U+000D, U+001C..U+0020, U+0085, U+00A0,
  U+1680, U+2000..U+200A, U+2028, U+2029, U+202F, U+205F and U+3000.
\<close>

definition isspace :: "nat \<Rightarrow> bool" where
  "isspace c \<longleftrightarrow>
     (9 \<le> c \<and> c \<le> 13) \<or> (28 \<le> c \<and> c \<le> 32) \<or> c = 133 \<or> c = 160 \<or> c = 5760 \<or>
     (8192 \<le> c \<and> c \<le> 8202) \<or> c = 8232 \<or> c = 8233 \<or> c = 8239 \<or> c = 8287 \<or> c = 12288"

text \<open>
  \<open>text.split()\<close> without arguments: the maximal runs of non-whitespace characters, in
  order. \<open>split_from word cs\<close> scans \<open>cs\<close> with the characters of the word being read
  in \<open>word\<close>.
\<close>

fun split_from :: "pystr \<Rightarrow> pystr \<Rightarrow> pystr list" where
  "split_from word [] = (if word = [] then [] else [word])"
| "split_from word (c # cs) =
     (if isspace c then (if word = [] then split_from [] cs else word # split_from [] cs)
      else split_from (word @ [c]) cs)"

definition split :: "pystr \<Rightarrow> pystr list" where
  "split text = split_from [] text"

text \<open>\<open>s.strip()\<close>: whitespace removed at both ends.\<close>

definition strip :: "pystr \<Rightarrow> pystr" where
  "strip s = rev (dropWhile isspace (rev (dropWhile isspace s)))"

text \<open>\<open>sep.join(xs)\<close>.\<close>

fun join :: "pystr \<Rightarrow> pystr list \<Rightarrow> pystr" where
  "join sep [] = []"
| "join sep [x] = x"
| "join sep (x # y # ys) = x @ sep @ join sep (y # ys)"

section \<open>The text wrapper\<close>

text \<open>
  \<^verbatim>\<open>
  def wrap_text(text, max_w):
      words = text.split()
      lines = []
      current_line = ''
      for word in words:
          if len(current_line + word) <= max_w:
              current_line += ' ' + word
          else:
              lines.append(current_line.strip())
              current_line = word
      lines.append(current_line.strip())
      return '\n'.join(lines)
  \<close>
  The \<open>for\<close> loop is \<open>wrap_loop\<close>, with the two loop variables \<open>lines\<close> and
  \<open>current_line\<close> passed along; \<open>max_w\<close> is a Python integer.
\<close>

fun wrap_loop :: "int \<Rightarrow> pystr list \<Rightarrow> pystr list \<Rightarrow> pystr \<Rightarrow> pystr list \<times> pystr" where
  "wrap_loop max_w [] lines current_line = (lines, current_line)"
| "wrap_loop max_w (word # words) lines current_line =
     (if int (length (current_line @ word)) \<le> max_w
      then wrap_loop max_w words lines (current_line @ lit '' '' @ word)
      else wrap_loop max_w words (lines @ [strip current_line]) word)"

definition wrap_text :: "pystr \<Rightarrow> int \<Rightarrow> pystr" where
  "wrap_text text max_w =
     (case wrap_loop max_w (split text) [] [] of
        (lines, current_line) \<Rightarrow> join (lit [CHR 0x0A]) (lines @ [strip current_line]))"

section \<open>Values, exceptions and the environment\<close>

text \<open>
  A decoded JSON value, as \<open>response.json()\<close> returns it. \<open>JObj\<close> holds the items of a
  \<open>dict\<close> in insertion order (the keys of a \<open>dict\<close> are distinct); \<open>'f\<close> is the type of
  Python floats, which this program parses, stores and sends on but never computes with.
\<close>

datatype 'f json =
    JNull
  | JBool bool
  | JInt int
  | JFloat 'f
  | JStr pystr
  | JArr "'f json list"
  | JObj "(pystr \<times> 'f json) list"

text \<open>
  The exceptions that occur. \<open>KeyError\<close> carries the key; \<open>ValueError\<close>,
  \<open>RequestException\<close> (whatever \<open>requests.post\<close> raises) and \<open>Exception\<close> carry their
  message.
\<close>

datatype exn =
    KeyError pystr
  | ValueError pystr
  | TypeError
  | AttributeError
  | RequestException pystr
  | Exception pystr

datatype action =
    DoNothingAction
  | CopyToClipboardAction pystr
  | ExtensionCustomAction pystr bool

text \<open>
  \<open>ExtensionResultItem(icon=..., name=..., description=..., on_enter=...)\<close>; the description
  is \<open>None\<close> where the call does not pass one.
\<close>

datatype item =
  ExtensionResultItem (icon: pystr) (name: pystr) (description: "pystr option") (on_enter: action)

text \<open>
  A \<open>requests.Response\<close>: \<open>json_result\<close> is what \<open>response.json()\<close> returns, \<open>None\<close>
  when it raises because the body is not JSON.
\<close>

datatype 'f http_response =
  HttpResponse (status_code: int) (json_result: "'f json option")

text \<open>
  The call \<open>requests.post(ENDPOINT, headers=headers, data=body, timeout=10)\<close>. \<open>data\<close> is
  the dictionary that \<open>json.dumps\<close> serialises.
\<close>

datatype 'f request =
  Request (url: pystr) (headers: "(pystr \<times> pystr) list") (data: "'f json") (timeout: int)

text \<open>
  The values that the variable \<open>response\<close> of \<open>create_items\<close> holds: what \<open>query\<close>
  returned (the blank-prompt \<open>RenderResultListAction\<close> or the \<open>Response\<close>), and the
  decoded body once \<open>response = response.json()\<close> has run.
\<close>

datatype 'f pyval =
    RenderResultListAction "item list"
  | Response "'f http_response"
  | Decoded "'f json"

text \<open>
  What the program takes from Python and from the network: the built-ins \<open>int\<close> and
  \<open>float\<close> on a string, which return a number (\<open>Inr\<close>) or raise a \<open>ValueError\<close> whose
  text the interpreter chooses (\<open>Inl\<close> that text), \<open>repr\<close> of a string, \<open>str\<close> of a
  value, the message of a \<open>TypeError\<close> or \<open>AttributeError\<close> that the interpreter
  raises, and \<open>requests.post\<close>, which returns a response or raises.
\<close>

record 'f env =
  py_int :: "pystr \<Rightarrow> pystr + int"
  py_float :: "pystr \<Rightarrow> pystr + 'f"
  py_repr :: "pystr \<Rightarrow> pystr"
  py_str :: "'f pyval \<Rightarrow> pystr"
  interp_msg :: "exn \<Rightarrow> pystr"
  post :: "'f request \<Rightarrow> exn + 'f http_response"

text \<open>\<open>str(err)\<close>.\<close>

fun str_exn :: "'f env \<Rightarrow> exn \<Rightarrow> pystr" where
  "str_exn E (KeyError k) = py_repr E k"
| "str_exn E (ValueError m) = m"
| "str_exn E (RequestException m) = m"
| "str_exn E (Exception m) = m"
| "str_exn E e = interp_msg E e"

text \<open>Sequencing of statements that may raise: the first exception ends the block.\<close>

definition and_then :: "exn + 'a \<Rightarrow> ('a \<Rightarrow> exn + 'b) \<Rightarrow> exn + 'b" where
  "and_then r f = (case r of Inl err \<Rightarrow> Inl err | Inr v \<Rightarrow> f v)"

text \<open>\<open>x[k]\<close> with a string key: only a \<open>dict\<close> supports it.\<close>

fun subscript :: "'f json \<Rightarrow> pystr \<Rightarrow> exn + 'f json" where
  "subscript (JObj kvs) k = (case map_of kvs k of None \<Rightarrow> Inl (KeyError k) | Some v \<Rightarrow> Inr v)"
| "subscript _ k = Inl TypeError"

definition pyval_subscript :: "'f pyval \<Rightarrow> pystr \<Rightarrow> exn + 'f json" where
  "pyval_subscript v k = (case v of Decoded j \<Rightarrow> subscript j k | _ \<Rightarrow> Inl TypeError)"

text \<open>
  \<open>for choice in choices\<close>: a list yields its elements, a \<open>dict\<close> its keys, a string its
  characters; \<open>None\<close>, booleans and numbers are not iterable.
\<close>

fun iter :: "'f json \<Rightarrow> exn + 'f json list" where
  "iter (JArr xs) = Inr xs"
| "iter (JObj kvs) = Inr (map (\<lambda>kv. JStr (fst kv)) kvs)"
| "iter (JStr s) = Inr (map (\<lambda>c. JStr [c]) s)"
| "iter _ = Inl TypeError"

section \<open>The program\<close>

definition EXTENSION_ICON :: pystr where
  "EXTENSION_ICON = lit ''images/icon.png''"

definition ENDPOINT :: pystr where
  "ENDPOINT = lit ''https://api.openai.com/v1/chat/completions''"

subsection \<open>\<open>query\<close>\<close>

text \<open>The dictionaries \<open>headers\<close> and \<open>body\<close> that \<open>query\<close> builds.\<close>

definition request_headers :: "pystr \<Rightarrow> (pystr \<times> pystr) list" where
  "request_headers api_key =
     [(lit ''content-type'', lit ''application/json''),
      (lit ''Authorization'', lit ''Bearer '' @ api_key)]"

definition request_body ::
  "pystr \<Rightarrow> pystr \<Rightarrow> 'f \<Rightarrow> int \<Rightarrow> 'f \<Rightarrow> 'f \<Rightarrow> 'f \<Rightarrow> pystr \<Rightarrow> 'f json" where
  "request_body search_term system_prompt temperature max_tokens top_p frequency_penalty
       presence_penalty model =
     JObj [
       (lit ''messages'', JArr [
          JObj [(lit ''role'', JStr (lit ''system'')), (lit ''content'', JStr system_prompt)],
          JObj [(lit ''role'', JStr (lit ''user'')), (lit ''content'', JStr search_term)]]),
       (lit ''temperature'', JFloat temperature),
       (lit ''max_tokens'', JInt max_tokens),
       (lit ''top_p'', JFloat top_p),
       (lit ''frequency_penalty'', JFloat frequency_penalty),
       (lit ''presence_penalty'', JFloat presence_penalty),
       (lit ''model'', JStr model)]"

text \<open>
  \<open>query\<close> returns its result (or the exception it raises) together with the requests
  it has sent, in order. \<open>not search_term\<close> holds of the empty string only.
\<close>

definition query ::
  "'f env \<Rightarrow> pystr \<Rightarrow> pystr \<Rightarrow> pystr \<Rightarrow> 'f \<Rightarrow> int \<Rightarrow> 'f \<Rightarrow> 'f \<Rightarrow> 'f \<Rightarrow> pystr
     \<Rightarrow> (exn + 'f pyval) \<times> 'f request list" where
  "query E search_term system_prompt api_key temperature max_tokens top_p frequency_penalty
       presence_penalty model =
     (if search_term = [] then
        (Inr (RenderResultListAction
           [ExtensionResultItem EXTENSION_ICON (lit ''Type in a prompt...'') None DoNothingAction]),
         [])
      else
        let headers = request_headers api_key;
            body = request_body search_term system_prompt temperature max_tokens top_p
                     frequency_penalty presence_penalty model;
            req = Request ENDPOINT headers body 10
        in (case post E req of
              Inl err \<Rightarrow> (Inl err, [req])
            | Inr response \<Rightarrow> (Inr (Response response), [req])))"

subsection \<open>\<open>create_items\<close>\<close>

text \<open>
  The first \<open>try\<close> block, \<open>response = response.json(); choices = response['choices']\<close>:
  \<open>Inr\<close> the choices, or \<open>Inl\<close> the value that \<open>response\<close> holds when the exception is
  caught. Only a \<open>Response\<close> has a method \<open>json\<close>.
\<close>

definition get_choices :: "'f pyval \<Rightarrow> 'f pyval + 'f json" where
  "get_choices response =
     (case response of
        Response r \<Rightarrow>
          (case json_result r of
             None \<Rightarrow> Inl response
           | Some j \<Rightarrow>
               (case subscript j (lit ''choices'') of
                  Inl err \<Rightarrow> Inl (Decoded j)
                | Inr choices \<Rightarrow> Inr choices))
      | _ \<Rightarrow> Inl response)"

text \<open>
  The \<open>except\<close> branch: \<open>errMsg\<close> is the fixed message unless
  \<open>response['error']['message']\<close> can be read, and \<open>str(response) + errMsg\<close> is a
  \<open>TypeError\<close> unless \<open>errMsg\<close> is a string.
\<close>

definition service_error :: "'f env \<Rightarrow> 'f pyval \<Rightarrow> exn" where
  "service_error E response =
     (let errMsg =
        (case and_then (pyval_subscript response (lit ''error''))
                (\<lambda>e. subscript e (lit ''message'')) of
           Inl err \<Rightarrow> JStr (lit ''Unknown error, please check logs for more info'')
         | Inr m \<Rightarrow> m)
      in (case errMsg of
            JStr m \<Rightarrow> Exception (py_str E response @ m)
          | _ \<Rightarrow> TypeError))"

text \<open>
  The loop over the choices, with \<open>choice['message']['content']\<close> as
  \<open>choice_content\<close>. \<open>wrap_text\<close> calls \<open>message.split()\<close>, which only a string
  has. The logging after the loop has no effect on the result.
\<close>

definition choice_content :: "'f json \<Rightarrow> exn + 'f json" where
  "choice_content choice =
     and_then (subscript choice (lit ''message'')) (\<lambda>m. subscript m (lit ''content''))"

fun items_loop :: "'f json list \<Rightarrow> int \<Rightarrow> item list \<Rightarrow> exn + item list" where
  "items_loop [] line_wrap items = Inr items"
| "items_loop (choice # choices) line_wrap items =
     (case choice_content choice of
        Inl err \<Rightarrow> Inl err
      | Inr (JStr message) \<Rightarrow>
          (let message = wrap_text message line_wrap
           in items_loop choices line_wrap
                (items @ [ExtensionResultItem EXTENSION_ICON (lit ''Assistant'') (Some message)
                            (CopyToClipboardAction message)]))
      | Inr _ \<Rightarrow> Inl AttributeError)"

definition create_items :: "'f env \<Rightarrow> 'f pyval \<Rightarrow> int \<Rightarrow> exn + item list" where
  "create_items E response line_wrap =
     (case get_choices response of
        Inl response' \<Rightarrow> Inl (service_error E response')
      | Inr choices \<Rightarrow> and_then (iter choices) (\<lambda>cs. items_loop cs line_wrap []))"

subsection \<open>\<open>SettingsHandler.parse_prefs\<close>\<close>

record 'f settings =
  api_key :: pystr
  max_tokens :: int
  frequency_penalty :: 'f
  presence_penalty :: 'f
  temperature :: 'f
  top_p :: 'f
  system_prompt :: pystr
  line_wrap :: int
  model :: pystr
  wait_for_enter :: int

text \<open>\<open>preferences[k]\<close>, \<open>int(v)\<close> and \<open>float(v)\<close> with the exceptions they raise.\<close>

definition getitem :: "(pystr \<rightharpoonup> pystr) \<Rightarrow> pystr \<Rightarrow> exn + pystr" where
  "getitem preferences k = (case preferences k of None \<Rightarrow> Inl (KeyError k) | Some v \<Rightarrow> Inr v)"

definition to_int :: "'f env \<Rightarrow> pystr \<Rightarrow> exn + int" where
  "to_int E v =
     (case py_int E v of
        Inl m \<Rightarrow> Inl (ValueError m)
      | Inr n \<Rightarrow> Inr n)"

definition to_float :: "'f env \<Rightarrow> pystr \<Rightarrow> exn + 'f" where
  "to_float E v =
     (case py_float E v of
        Inl m \<Rightarrow> Inl (ValueError m)
      | Inr x \<Rightarrow> Inr x)"

text \<open>
  The attributes are assigned in the order of the source, so the first preference that
  is missing or does not parse decides the exception. On success all ten are set.
\<close>

definition parse_prefs :: "'f env \<Rightarrow> (pystr \<rightharpoonup> pystr) \<Rightarrow> exn + 'f settings" where
  "parse_prefs E preferences =
     and_then (getitem preferences (lit ''api_key'')) (\<lambda>v_api_key.
     and_then (and_then (getitem preferences (lit ''max_tokens'')) (to_int E)) (\<lambda>v_max_tokens.
     and_then (and_then (getitem preferences (lit ''frequency_penalty'')) (to_float E)) (\<lambda>v_frequency_penalty.
     and_then (and_then (getitem preferences (lit ''presence_penalty'')) (to_float E)) (\<lambda>v_presence_penalty.
     and_then (and_then (getitem preferences (lit ''temperature'')) (to_float E)) (\<lambda>v_temperature.
     and_then (and_then (getitem preferences (lit ''top_p'')) (to_float E)) (\<lambda>v_top_p.
     and_then (getitem preferences (lit ''system_prompt'')) (\<lambda>v_system_prompt.
     and_then (and_then (getitem preferences (lit ''line_wrap'')) (to_int E)) (\<lambda>v_line_wrap.
     and_then (getitem preferences (lit ''model'')) (\<lambda>v_model.
     and_then (and_then (getitem preferences (lit ''wait_before_query'')) (to_int E)) (\<lambda>v_wait_for_enter.
     Inr \<lparr>api_key = v_api_key, max_tokens = v_max_tokens,
          frequency_penalty = v_frequency_penalty, presence_penalty = v_presence_penalty,
          temperature = v_temperature, top_p = v_top_p, system_prompt = v_system_prompt,
          line_wrap = v_line_wrap, model = v_model, wait_for_enter = v_wait_for_enter\<rparr>))))))))))"

subsection \<open>The event listeners\<close>

text \<open>
  An \<open>on_event\<close> either returns \<open>RenderResultListAction(items)\<close>, modelled as \<open>Inr items\<close>,
  or lets an exception escape (\<open>Inl\<close>); the second component lists the requests sent.
  The three items that the listeners build themselves:
\<close>

definition prefs_failed_item :: "'f env \<Rightarrow> exn \<Rightarrow> item" where
  "prefs_failed_item E err =
     ExtensionResultItem EXTENSION_ICON (lit ''Failed to parse preferences: '' @ str_exn E err) None
       (CopyToClipboardAction (str_exn E err))"

definition request_failed_item :: "'f env \<Rightarrow> exn \<Rightarrow> item" where
  "request_failed_item E err =
     ExtensionResultItem EXTENSION_ICON (lit ''Request failed: '' @ str_exn E err) None
       (CopyToClipboardAction (str_exn E err))"

definition waiting_item :: "pystr \<Rightarrow> item" where
  "waiting_item search_term =
     ExtensionResultItem EXTENSION_ICON (lit ''Waiting until Enter is pressed: '' @ search_term) None
       (ExtensionCustomAction search_term True)"

text \<open>
  The two listeners end with the same statements (lines 164 to 185 and 219 to 240 of
  the source), written once here as \<open>run_query\<close>: an exception of \<open>query\<close> is caught
  and shown as an item, and the call of \<open>create_items\<close> stands after the \<open>try\<close> block.
\<close>

definition run_query :: "'f env \<Rightarrow> 'f settings \<Rightarrow> pystr \<Rightarrow> (exn + item list) \<times> 'f request list" where
  "run_query E s search_term =
     (case query E search_term (system_prompt s) (api_key s) (temperature s) (max_tokens s)
             (top_p s) (frequency_penalty s) (presence_penalty s) (model s) of
        (Inl err, sent) \<Rightarrow> (Inr [request_failed_item E err], sent)
      | (Inr response, sent) \<Rightarrow> (create_items E response (line_wrap s), sent))"

text \<open>
  \<open>ItemEnterEventListener.on_event\<close>; \<open>event_data\<close> is \<open>event.get_data()\<close>, the search
  term that the waiting item carries.
\<close>

definition ItemEnter_on_event ::
  "'f env \<Rightarrow> pystr \<Rightarrow> (pystr \<rightharpoonup> pystr) \<Rightarrow> (exn + item list) \<times> 'f request list" where
  "ItemEnter_on_event E event_data preferences =
     (case parse_prefs E preferences of
        Inl err \<Rightarrow> (Inr [prefs_failed_item E err], [])
      | Inr s \<Rightarrow> run_query E s event_data)"

text \<open>
  \<open>KeywordQueryEventListener.on_event\<close>; \<open>argument\<close> is \<open>event.get_argument()\<close>, which is
  \<open>None\<close> or a string, and \<open>str\<close> of \<open>None\<close> is \<open>"None"\<close>.
\<close>

definition str_argument :: "pystr option \<Rightarrow> pystr" where
  "str_argument argument = (case argument of None \<Rightarrow> lit ''None'' | Some a \<Rightarrow> a)"

definition KeywordQuery_on_event ::
  "'f env \<Rightarrow> pystr option \<Rightarrow> (pystr \<rightharpoonup> pystr) \<Rightarrow> (exn + item list) \<times> 'f request list" where
  "KeywordQuery_on_event E argument preferences =
     (case parse_prefs E preferences of
        Inl err \<Rightarrow> (Inr [prefs_failed_item E err], [])
      | Inr s \<Rightarrow>
          (let search_term = str_argument argument
           in if wait_for_enter s \<noteq> 0 then (Inr [waiting_item search_term], [])
              else run_query E s search_term))"

section \<open>A sample environment and sample inputs\<close>

text \<open>
  The theorems below hold for every environment. Where one is evaluated at a concrete
  input, it is in this environment, which agrees with Python on values of fewer than
  200 characters, all printable ASCII without quote or backslash: \<open>repr\<close> and \<open>str\<close>
  as Python prints such values, \<open>int\<close> on unsigned decimal literals, \<open>float\<close> on
  literals of digits with at most one point (a float is represented by the literal it
  is read from), both with the text of Python's \<open>ValueError\<close> on a value they do not
  read, and a network that is given as the parameter \<open>post_fn\<close>.
\<close>

definition is_digit :: "nat \<Rightarrow> bool" where
  "is_digit c \<longleftrightarrow> 48 \<le> c \<and> c \<le> 57"

definition sample_repr :: "pystr \<Rightarrow> pystr" where
  "sample_repr v = [39] @ v @ [39]"

definition sample_int :: "pystr \<Rightarrow> pystr + int" where
  "sample_int v =
     (if v \<noteq> [] \<and> list_all is_digit v
      then Inr (foldl (\<lambda>a c. 10 * a + int (c - 48)) 0 v)
      else Inl (lit ''invalid literal for int() with base 10: '' @ sample_repr v))"

definition sample_float :: "pystr \<Rightarrow> pystr + pystr" where
  "sample_float v =
     (if list_all (\<lambda>c. is_digit c \<or> c = 46) v \<and> list_ex is_digit v \<and>
         length (filter (\<lambda>c. c = 46) v) \<le> 1
      then Inr v
      else Inl (lit ''could not convert string to float: '' @ sample_repr v))"

fun str_nat :: "nat \<Rightarrow> pystr" where
  "str_nat n = (if n < 10 then [48 + n] else str_nat (n div 10) @ [48 + n mod 10])"

definition str_int :: "int \<Rightarrow> pystr" where
  "str_int i = (if i < 0 then lit ''-'' @ str_nat (nat (- i)) else str_nat (nat i))"

fun repr_json :: "pystr json \<Rightarrow> pystr" where
  "repr_json JNull = lit ''None''"
| "repr_json (JBool b) = (if b then lit ''True'' else lit ''False'')"
| "repr_json (JInt i) = str_int i"
| "repr_json (JFloat x) = x"
| "repr_json (JStr v) = sample_repr v"
| "repr_json (JArr xs) = lit ''['' @ join (lit '', '') (map repr_json xs) @ lit '']''"
| "repr_json (JObj kvs) =
     lit ''{'' @ join (lit '', '')
        (map (\<lambda>kv. sample_repr (fst kv) @ lit '': '' @ repr_json (snd kv)) kvs) @ lit ''}''"

definition sample_str :: "pystr pyval \<Rightarrow> pystr" where
  "sample_str v =
     (case v of
        RenderResultListAction items \<Rightarrow>
          lit ''<ulauncher.api.shared.action.RenderResultListAction.RenderResultListAction object at 0x7f3a5c1d2e80>''
      | Response r \<Rightarrow> lit ''<Response ['' @ str_int (status_code r) @ lit '']>''
      | Decoded j \<Rightarrow> repr_json j)"

definition sample_env :: "(pystr request \<Rightarrow> exn + pystr http_response) \<Rightarrow> pystr env" where
  "sample_env post_fn =
     \<lparr>py_int = sample_int, py_float = sample_float, py_repr = sample_repr, py_str = sample_str,
      interp_msg = (\<lambda>e. []), post = post_fn\<rparr>"

text \<open>A network that is down, and one that answers every request with the same response.\<close>

definition offline :: "pystr request \<Rightarrow> exn + pystr http_response" where
  "offline req = Inl (RequestException (lit ''connection refused''))"

definition answers :: "pystr http_response \<Rightarrow> pystr request \<Rightarrow> exn + pystr http_response" where
  "answers r req = Inr r"

text \<open>The preferences of the end-to-end example: every value parses, no waiting for Enter.\<close>

definition sample_prefs :: "pystr \<rightharpoonup> pystr" where
  "sample_prefs = map_of
     [(lit ''api_key'', lit ''k''), (lit ''model'', lit ''m''), (lit ''temperature'', lit ''0.5''),
      (lit ''max_tokens'', lit ''16''), (lit ''top_p'', lit ''1''),
      (lit ''frequency_penalty'', lit ''0''), (lit ''presence_penalty'', lit ''0''),
      (lit ''system_prompt'', lit ''sys''), (lit ''line_wrap'', lit ''20''),
      (lit ''wait_before_query'', lit ''0'')]"

definition sample_settings :: "pystr settings" where
  "sample_settings =
     \<lparr>api_key = lit ''k'', max_tokens = 16, frequency_penalty = lit ''0'',
      presence_penalty = lit ''0'', temperature = lit ''0.5'', top_p = lit ''1'',
      system_prompt = lit ''sys'', line_wrap = 20, model = lit ''m'', wait_for_enter = 0\<rparr>"

text \<open>The request that these settings and a search term give.\<close>

definition sample_request :: "pystr \<Rightarrow> pystr request" where
  "sample_request search_term =
     Request ENDPOINT (request_headers (lit ''k''))
       (request_body search_term (lit ''sys'') (lit ''0.5'') 16 (lit ''1'') (lit ''0'') (lit ''0'')
          (lit ''m'')) 10"

text \<open>
  Three response bodies: a completion, \<open>{"error": {"message": "bad key"}}\<close> and
  \<open>{"error": {"message": null}}\<close>.
\<close>

definition hello_body :: "pystr json" where
  "hello_body = JObj [(lit ''choices'', JArr [JObj [(lit ''message'',
     JObj [(lit ''role'', JStr (lit ''assistant'')), (lit ''content'', JStr (lit ''hello world''))])]])]"

definition bad_key_body :: "pystr json" where
  "bad_key_body = JObj [(lit ''error'', JObj [(lit ''message'', JStr (lit ''bad key''))])]"

definition null_message_body :: "pystr json" where
  "null_message_body = JObj [(lit ''error'', JObj [(lit ''message'', JNull)])]"

section \<open>Words and the invariant of the wrapper's loop\<close>

text \<open>A word: a non-empty string without whitespace.\<close>

definition token :: "pystr \<Rightarrow> bool" where
  "token w \<longleftrightarrow> w \<noteq> [] \<and> list_all (\<lambda>c. \<not> isspace c) w"

text \<open>
  The invariant of the loop of \<open>wrap_text\<close>: the current line holds the words \<open>g\<close> joined by single
  spaces, with one more space in front while the first line is being filled.
\<close>

definition holds :: "pystr \<Rightarrow> pystr list \<Rightarrow> bool" where
  "holds cur g \<longleftrightarrow> (if g = [] then cur = [] else cur = join [32] g \<or> cur = 32 # join [32] g)"

text \<open>
  A text in which whitespace occurs only as single spaces between words: no whitespace
  at either end, no two whitespace characters next to each other, and no whitespace
  character other than the space.
\<close>

fun no_adjacent_space :: "pystr \<Rightarrow> bool" where
  "no_adjacent_space (a # b # cs) = ((\<not> isspace a \<or> \<not> isspace b) \<and> no_adjacent_space (b # cs))"
| "no_adjacent_space cs = True"

definition single_spaced :: "pystr \<Rightarrow> bool" where
  "single_spaced s \<longleftrightarrow>
     (s = [] \<or> (\<not> isspace (hd s) \<and> \<not> isspace (last s))) \<and>
     no_adjacent_space s \<and>
     list_all (\<lambda>c. \<not> isspace c \<or> c = 32) s"

text \<open>
  The same property as one scan from the left, for the proofs: \<open>after_word\<close> says that
  the character before is part of a word.
\<close>

fun spaced :: "bool \<Rightarrow> pystr \<Rightarrow> bool" where
  "spaced after_word [] = after_word"
| "spaced after_word (c # cs) =
     (if isspace c then after_word \<and> c = 32 \<and> spaced False cs else spaced True cs)"

text \<open>
  A text laid out as words with a separator between each two: \<open>weave [w1, w2, w3] [s1, s2]\<close>
  is \<open>w1 s1 w2 s2 w3\<close>.
\<close>

fun weave :: "pystr list \<Rightarrow> pystr list \<Rightarrow> pystr" where
  "weave [] seps = []"
| "weave [w] seps = w"
| "weave (w # w' # ws) [] = w"
| "weave (w # w' # ws) (sep # seps) = w @ sep @ weave (w' # ws) seps"

section \<open>Facts about splitting, joining and stripping\<close>

lemma lit_space: "lit '' '' = [32]"
  by (simp add: lit_def)

lemma lit_newline: "lit [CHR 0x0A] = [10]"
  by (simp add: lit_def)

lemma isspace_space: "isspace 32"
  by (simp add: isspace_def)

lemma split_from_tokens:
  "list_all (\<lambda>c. \<not> isspace c) word \<Longrightarrow> list_all token (split_from word cs)"
  by (induction cs arbitrary: word) (auto simp: token_def)

lemma split_tokens: "list_all token (split s)"
  by (simp add: split_def split_from_tokens)

lemma token_ends: "token w \<Longrightarrow> \<not> isspace (hd w) \<and> \<not> isspace (last w)"
  by (cases w) (auto simp: token_def list_all_iff)

lemma join_nonempty: "ws \<noteq> [] \<Longrightarrow> list_all token ws \<Longrightarrow> join sep ws \<noteq> []"
  by (induction sep ws rule: join.induct) (auto simp: token_def)

lemma hd_join: "ws \<noteq> [] \<Longrightarrow> list_all token ws \<Longrightarrow> hd (join sep ws) = hd (hd ws)"
  by (induction sep ws rule: join.induct) (auto simp: token_def)

lemma last_join: "ws \<noteq> [] \<Longrightarrow> list_all token ws \<Longrightarrow> last (join sep ws) = last (last ws)"
  by (induction sep ws rule: join.induct) (auto simp: token_def join_nonempty)

lemma join_snoc: "ws \<noteq> [] \<Longrightarrow> join sep (ws @ [w]) = join sep ws @ sep @ w"
  by (induction sep ws rule: join.induct) auto

lemma concat_space_join: "ws \<noteq> [] \<Longrightarrow> concat (map ((#) 32) ws) = 32 # join [32] ws"
  by (induction "[32::nat]" ws rule: join.induct) auto

lemma split_from_length:
  "length (concat (map ((#) 32) (split_from word cs))) \<le> length word + length cs + 1"
proof (induction cs arbitrary: word)
  case Nil
  show ?case by simp
next
  case (Cons c cs)
  show ?case
    using Cons.IH[of "[]"] Cons.IH[of "word @ [c]"] by simp
qed

lemma split_length: "length (concat (map ((#) 32) (split s))) \<le> length s + 1"
  using split_from_length[of "[]" s] by (simp add: split_def)

lemma strip_empty: "strip [] = []"
  by (simp add: strip_def)

lemma strip_space_cons: "strip (32 # s) = strip s"
  by (simp add: strip_def isspace_space)

lemma strip_id:
  assumes "s \<noteq> []" "\<not> isspace (hd s)" "\<not> isspace (last s)"
  shows "strip s = s"
proof -
  have "dropWhile isspace s = s"
    using assms by (cases s) auto
  moreover have "dropWhile isspace (rev s) = rev s"
    using assms by (cases "rev s") (auto simp: hd_rev)
  ultimately show ?thesis
    by (simp add: strip_def)
qed

lemma strip_join:
  assumes "list_all token ws"
  shows "strip (join [32] ws) = join [32] ws"
proof (cases "ws = []")
  case True
  then show ?thesis by (simp add: strip_empty)
next
  case False
  then have "token (hd ws)" "token (last ws)"
    using assms by (auto simp: list_all_iff)
  then show ?thesis
    using assms False
    by (intro strip_id) (auto simp: join_nonempty hd_join last_join dest: token_ends)
qed

text \<open>
  What \<open>split\<close> does to the characters of a text: of words laid out with a non-empty
  run of whitespace between each two, and with whitespace before and after, it returns
  the words.
\<close>

lemma isspace_ascii:
  "isspace 9 \<and> isspace 10 \<and> isspace 11 \<and> isspace 12 \<and> isspace 13 \<and> isspace 32 \<and>
   \<not> isspace 8 \<and> \<not> isspace 33 \<and> \<not> isspace 97"
  by (simp add: isspace_def)

lemma split_from_word:
  "list_all (\<lambda>c. \<not> isspace c) w \<Longrightarrow> split_from word (w @ cs) = split_from (word @ w) cs"
  by (induction w arbitrary: word) auto

lemma split_from_run:
  "list_all isspace r \<Longrightarrow> split_from [] (r @ cs) = split_from [] cs"
  by (induction r) auto

lemma split_from_word_run:
  "word \<noteq> [] \<Longrightarrow> r \<noteq> [] \<Longrightarrow> list_all isspace r \<Longrightarrow>
   split_from word (r @ cs) = word # split_from [] cs"
  by (cases r) (auto simp: split_from_run)

lemma split_from_trail:
  "word \<noteq> [] \<Longrightarrow> list_all isspace r \<Longrightarrow> split_from word r = [word]"
  using split_from_word_run[of word r "[]"] by (cases r) auto

lemma split_weave_aux:
  "list_all token ws \<Longrightarrow> length seps + 1 = length ws \<Longrightarrow>
   list_all (\<lambda>r. r \<noteq> [] \<and> list_all isspace r) seps \<Longrightarrow> list_all isspace trail \<Longrightarrow>
   split_from [] (weave ws seps @ trail) = ws"
proof (induction ws seps rule: weave.induct)
  case (1 seps)
  then show ?case by simp
next
  case (2 w seps)
  then show ?case
    using split_from_word[of w "[]" trail] by (simp add: token_def split_from_trail)
next
  case (3 w w' ws)
  then show ?case by simp
next
  case (4 w w' ws sep seps)
  then show ?case
    using split_from_word[of w "[]" "sep @ weave (w' # ws) seps @ trail"]
    by (simp add: token_def split_from_word_run)
qed

lemma split_weave:
  "list_all token ws \<Longrightarrow> length seps + 1 = length ws \<Longrightarrow>
   list_all (\<lambda>r. r \<noteq> [] \<and> list_all isspace r) seps \<Longrightarrow>
   list_all isspace lead \<Longrightarrow> list_all isspace trail \<Longrightarrow>
   split (lead @ weave ws seps @ trail) = ws"
  by (simp add: split_def split_from_run split_weave_aux)

lemma split_blank: "list_all isspace s \<Longrightarrow> split s = []"
  using split_from_run[of s "[]"] by (simp add: split_def)

text \<open>
  Joining the words of a text by single spaces gives the text back exactly when its
  whitespace is single spaces between words.
\<close>

lemma spaced_iff:
  "spaced b s \<longleftrightarrow>
     (if s = [] then b else \<not> isspace (last s) \<and> (b \<or> \<not> isspace (hd s))) \<and>
     no_adjacent_space s \<and> list_all (\<lambda>c. \<not> isspace c \<or> c = 32) s"
proof (induction s arbitrary: b)
  case Nil
  show ?case by simp
next
  case (Cons c cs)
  show ?case
  proof (cases cs)
    case Nil
    then show ?thesis by auto
  next
    case (Cons d ds)
    then show ?thesis
      using Cons.IH[of False] Cons.IH[of True] by auto
  qed
qed

lemma single_spaced_iff: "single_spaced s \<longleftrightarrow> s = [] \<or> spaced False s"
  by (cases s) (auto simp: single_spaced_def spaced_iff simp del: spaced.simps)

lemma join_split_from:
  "list_all (\<lambda>c. \<not> isspace c) word \<Longrightarrow> cs = [] \<or> spaced (word \<noteq> []) cs \<Longrightarrow>
   join [32] (split_from word cs) = word @ cs"
proof (induction cs arbitrary: word)
  case Nil
  show ?case by simp
next
  case (Cons c cs)
  show ?case
  proof (cases "isspace c")
    case True
    then have w: "word \<noteq> []" and c: "c = 32" and sp: "spaced False cs"
      using Cons.prems(2) by auto
    then have ne: "cs \<noteq> []"
      by auto
    have j: "join [32] (split_from [] cs) = [] @ cs"
      by (rule Cons.IH) (use sp in auto)
    then obtain y ys where "split_from [] cs = y # ys"
      using ne by (cases "split_from [] cs") auto
    then show ?thesis
      using True w c j by simp
  next
    case False
    have "join [32] (split_from (word @ [c]) cs) = (word @ [c]) @ cs"
      by (rule Cons.IH) (use False Cons.prems in auto)
    then show ?thesis
      using False by simp
  qed
qed

lemma spaced_word:
  "list_all (\<lambda>c. \<not> isspace c) w \<Longrightarrow> spaced b (w @ cs) = spaced (b \<or> w \<noteq> []) cs"
  by (induction w arbitrary: b) auto

lemma spaced_join:
  "ws \<noteq> [] \<Longrightarrow> list_all token ws \<Longrightarrow> spaced False (join [32] ws)"
proof (induction "[32::nat]" ws rule: join.induct)
  case 1
  then show ?case by simp
next
  case (2 x)
  then show ?case
    using spaced_word[of x False "[]"] by (simp add: token_def)
next
  case (3 x y ys)
  then show ?case
    using spaced_word[of x False "32 # join [32] (y # ys)"] by (simp add: token_def isspace_space)
qed

lemma join_split_iff: "join [32] (split s) = s \<longleftrightarrow> single_spaced s"
proof
  assume a: "join [32] (split s) = s"
  show "single_spaced s"
  proof (cases "split s = []")
    case True
    then show ?thesis
      using a by (simp add: single_spaced_iff)
  next
    case False
    then have "spaced False (join [32] (split s))"
      by (rule spaced_join) (rule split_tokens)
    then show ?thesis
      using a by (simp add: single_spaced_iff)
  qed
next
  assume "single_spaced s"
  then have "s = [] \<or> spaced (([]::pystr) \<noteq> []) s"
    by (simp add: single_spaced_iff)
  then have "join [32] (split_from [] s) = [] @ s"
    by (intro join_split_from) simp_all
  then show "join [32] (split s) = s"
    by (simp add: split_def)
qed

section \<open>The loop of the wrapper\<close>

text \<open>
  While the words still to come fit, with one space before each, the loop appends
  them all to the current line and flushes nothing.
\<close>

lemma wrap_loop_fits:
  "int (length cur) + int (length (concat (map ((#) 32) ws))) \<le> max_w + 1 \<Longrightarrow>
   wrap_loop max_w ws lines cur = (lines, cur @ concat (map ((#) 32) ws))"
  by (induction ws arbitrary: cur) (auto simp: lit_space)

lemma holds_strip: "list_all token g \<Longrightarrow> holds cur g \<Longrightarrow> strip cur = join [32] g"
  by (auto simp: holds_def strip_empty strip_space_cons strip_join split: if_splits)

lemma holds_append: "holds cur g \<Longrightarrow> holds (cur @ 32 # w) (g @ [w])"
  by (auto simp: holds_def join_snoc split: if_splits)

lemma holds_single: "holds w [w]"
  by (simp add: holds_def)

lemma wrap_loop_groups:
  "list_all token ws \<Longrightarrow> list_all token g \<Longrightarrow> holds cur g \<Longrightarrow>
   \<exists>G g' cur'. wrap_loop max_w ws lines cur = (lines @ map (join [32]) G, cur') \<and>
     holds cur' g' \<and> list_all token g' \<and> concat G @ g' = g @ ws \<and>
     (if g = [] then [] \<notin> set (tl G) else [] \<notin> set G) \<and>
     (if g' = [] then G = [] else True)"
proof (induction ws arbitrary: g cur lines)
  case Nil
  have "wrap_loop max_w [] lines cur = (lines @ map (join [32]) [], cur)"
    by simp
  with Nil show ?case by fastforce
next
  case (Cons w ws)
  have tw: "token w" and tws: "list_all token ws"
    using Cons.prems(1) by auto
  show ?case
  proof (cases "int (length (cur @ w)) \<le> max_w")
    case True
    have t': "list_all token (g @ [w])"
      using Cons.prems(2) tw by simp
    from Cons.IH[OF tws t' holds_append[OF Cons.prems(3)], of lines]
    obtain G g' cur' where h:
      "wrap_loop max_w ws lines (cur @ 32 # w) = (lines @ map (join [32]) G, cur')"
      "holds cur' g'" "list_all token g'" "concat G @ g' = (g @ [w]) @ ws" "[] \<notin> set G"
      "(if g' = [] then G = [] else True)"
      by auto
    have "wrap_loop max_w (w # ws) lines cur = (lines @ map (join [32]) G, cur')"
      using True h(1) by (simp add: lit_space)
    moreover have "[] \<notin> set (tl G)"
      using h(5) by (cases G) auto
    ultimately show ?thesis
      using h by (intro exI[of _ G] exI[of _ g'] exI[of _ cur']) auto
  next
    case False
    have t': "list_all token [w]"
      using tw by simp
    from Cons.IH[OF tws t' holds_single, of "lines @ [strip cur]"]
    obtain G g' cur' where h:
      "wrap_loop max_w ws (lines @ [strip cur]) w = ((lines @ [strip cur]) @ map (join [32]) G, cur')"
      "holds cur' g'" "list_all token g'" "concat G @ g' = [w] @ ws" "[] \<notin> set G"
      "(if g' = [] then G = [] else True)"
      by auto
    have s: "strip cur = join [32] g"
      using Cons.prems by (simp add: holds_strip)
    have "wrap_loop max_w (w # ws) lines cur = (lines @ map (join [32]) (g # G), cur')"
      using False h(1) s by simp
    moreover have "g' \<noteq> []"
      using h(4,6) by (cases "g' = []") auto
    ultimately show ?thesis
      using h by (intro exI[of _ "g # G"] exI[of _ g'] exI[of _ cur']) auto
  qed
qed

section \<open>Properties of the wrapper\<close>

text \<open>
  C2. The wrapper is greedy, and when no word is longer than \<open>max_w\<close> no line is. The
  code tests \<open>len(current_line + word) <= max_w\<close> without the space that it then
  inserts. On the first line \<open>current_line\<close> starts with a space, which makes up for it;
  after a flush it does not, and a line comes out one character too long. Here the
  words \<open>ab\<close>, \<open>c\<close>, \<open>d\<close> are at most 2 long and the second line is \<open>c d\<close>, of length 3.
\<close>

theorem wrap_text_line_exceeds_width:
  "wrap_text (lit ''ab c d'') 2 = join (lit [CHR 0x0A]) [lit ''ab'', lit ''c d''] \<and>
   list_all (\<lambda>word. int (length word) \<le> 2) (split (lit ''ab c d'')) \<and>
   int (length (lit ''c d'')) = 3"
  by (simp add: wrap_text_def split_def lit_def isspace_def strip_def)

text \<open>
  C8, as stated: on a text without newline that is no longer than \<open>N\<close>, the wrapper is
  the identity. It is not: the text \<open>a\<close>, two spaces, \<open>b\<close> has length 4 and no newline,
  and wrapping it to width 4 gives \<open>a b\<close>, with one space; the text \<open>a\<close>, tab, \<open>b\<close> has
  length 3 and no newline, and wrapping it to width 3 gives \<open>a b\<close>, with a space.
\<close>

theorem wrap_text_short_not_identity:
  "int (length (lit ''a  b'')) \<le> 4 \<and> 10 \<notin> set (lit ''a  b'') \<and>
   wrap_text (lit ''a  b'') 4 = lit ''a b'' \<and> lit ''a b'' \<noteq> lit ''a  b'' \<and>
   int (length (lit ''a'' @ [9] @ lit ''b'')) \<le> 3 \<and> 10 \<notin> set (lit ''a'' @ [9] @ lit ''b'') \<and>
   wrap_text (lit ''a'' @ [9] @ lit ''b'') 3 = lit ''a b'' \<and> lit ''a b'' \<noteq> lit ''a'' @ [9] @ lit ''b''"
  by (simp add: wrap_text_def split_def lit_def isspace_def strip_def)

text \<open>
  C8, amended: on a text that is no longer than \<open>max_w\<close>, the wrapper returns the words
  of the text joined by single spaces, on one line. So it returns the text unchanged
  exactly when the text has no whitespace at either end, no two whitespace characters
  next to each other, and no whitespace character other than the space.
\<close>

theorem wrap_text_short_joins_words:
  assumes "int (length text) \<le> max_w"
  shows "wrap_text text max_w = join (lit '' '') (split text) \<and>
         (wrap_text text max_w = text \<longleftrightarrow> single_spaced text)"
proof -
  have "int (length ([]::pystr)) + int (length (concat (map ((#) 32) (split text)))) \<le> max_w + 1"
    using assms split_length[of "text"] by simp
  then have l: "wrap_loop max_w (split text) [] [] = ([], [] @ concat (map ((#) 32) (split text)))"
    by (rule wrap_loop_fits)
  have "strip (concat (map ((#) 32) (split text))) = join [32] (split text)"
  proof (cases "split text = []")
    case True
    then show ?thesis by (simp add: strip_empty)
  next
    case False
    then show ?thesis
      using strip_join[OF split_tokens, of "text"]
      by (simp add: concat_space_join strip_space_cons)
  qed
  then have w: "wrap_text text max_w = join [32] (split text)"
    using l by (simp add: wrap_text_def)
  show ?thesis
    using w join_split_iff[of "text"] by (simp add: lit_space)
qed

text \<open>Witness for C8, amended: \<open>hello world\<close> at width 20.\<close>

theorem wrap_text_short_joins_words_witness:
  "int (length (lit ''hello world'')) \<le> 20 \<and>
   split (lit ''hello world'') = [lit ''hello'', lit ''world''] \<and>
   single_spaced (lit ''hello world'') \<and>
   wrap_text (lit ''hello world'') 20 = lit ''hello world''"
proof -
  have h: "int (length (lit ''hello world'')) \<le> 20"
    by (simp add: lit_def)
  have s: "split (lit ''hello world'') = [lit ''hello'', lit ''world'']"
    by (simp add: split_def lit_def isspace_def)
  have n: "single_spaced (lit ''hello world'')"
    by (simp add: single_spaced_def lit_def isspace_def)
  show ?thesis
    using h s n wrap_text_short_joins_words[OF h] by (simp add: lit_def)
qed

text \<open>
  Whatever the width, the result is made of the words of the text, in order and
  unchanged, and of single separators: the words are cut into groups, the words of a
  group are joined by one space and the groups by one line break. Only the first
  group can be empty.
\<close>

lemma wrap_text_groups:
  "\<exists>groups. groups \<noteq> [] \<and> [] \<notin> set (tl groups) \<and> concat groups = split text \<and>
     list_all token (split text) \<and>
     wrap_text text max_w = join (lit [CHR 0x0A]) (map (join (lit '' '')) groups)"
proof -
  have "holds [] []"
    by (simp add: holds_def)
  then have "\<exists>G g' cur'. wrap_loop max_w (split text) [] [] = ([] @ map (join [32]) G, cur') \<and>
     holds cur' g' \<and> list_all token g' \<and> concat G @ g' = [] @ split text \<and>
     (if ([]::pystr list) = [] then [] \<notin> set (tl G) else [] \<notin> set G) \<and>
     (if g' = [] then G = [] else True)"
    by (intro wrap_loop_groups split_tokens) simp
  then obtain G g' cur' where h:
      "wrap_loop max_w (split text) [] [] = (map (join [32]) G, cur')"
      "holds cur' g'" "list_all token g'" "concat G @ g' = split text" "[] \<notin> set (tl G)"
      "(if g' = [] then G = [] else True)"
    by auto
  have "strip cur' = join [32] g'"
    using h by (simp add: holds_strip)
  then have "wrap_text text max_w = join [10] (map (join [32]) (G @ [g']))"
    using h(1) by (simp add: wrap_text_def lit_newline)
  moreover have "[] \<notin> set (tl (G @ [g']))"
    using h(5,6) by (cases G) (auto split: if_splits)
  ultimately show ?thesis
    using h(4) split_tokens[of "text"]
    by (intro exI[of _ "G @ [g']"]) (auto simp: lit_space lit_newline)
qed

text \<open>
  When the first word is no longer than the width, no group is empty: the result is
  the words with one space or one line break between each two, and nothing else.
\<close>

lemma wrap_text_first_word_fits:
  assumes "split s = w # ws" and "int (length w) \<le> max_w"
  shows "\<exists>groups. [] \<notin> set groups \<and> concat groups = split s \<and>
           wrap_text s max_w = join (lit [CHR 0x0A]) (map (join (lit '' '')) groups)"
proof -
  have t: "token w" "list_all token ws"
    using split_tokens[of s] assms(1) by auto
  have "holds (32 # w) [w]" "list_all token [w]"
    using t by (simp_all add: holds_def)
  with t(2) have "\<exists>G g' cur'. wrap_loop max_w ws [] (32 # w) = ([] @ map (join [32]) G, cur') \<and>
     holds cur' g' \<and> list_all token g' \<and> concat G @ g' = [w] @ ws \<and>
     (if [w] = [] then [] \<notin> set (tl G) else [] \<notin> set G) \<and>
     (if g' = [] then G = [] else True)"
    by (intro wrap_loop_groups)
  then obtain G g' cur' where h:
      "wrap_loop max_w ws [] (32 # w) = (map (join [32]) G, cur')"
      "holds cur' g'" "list_all token g'" "concat G @ g' = w # ws" "[] \<notin> set G"
      "(if g' = [] then G = [] else True)"
    by auto
  have ne: "g' \<noteq> []"
    using h(4,6) by (cases "g' = []") auto
  have "wrap_loop max_w (split s) [] [] = (map (join [32]) G, cur')"
    using assms h(1) by (simp add: lit_space)
  moreover have "strip cur' = join [32] g'"
    using h by (simp add: holds_strip)
  ultimately have "wrap_text s max_w = join [10] (map (join [32]) (G @ [g']))"
    by (simp add: wrap_text_def lit_newline)
  then show ?thesis
    using h(4,5) ne assms(1)
    by (intro exI[of _ "G @ [g']"]) (auto simp: lit_space lit_newline)
qed

text \<open>
  The same on the characters of the text: whatever whitespace stands before the first
  word, between two words and after the last, the result has one space or one line
  break between two words and nothing before the first or after the last.
\<close>

lemma wrap_text_separators:
  assumes "list_all token (w # ws)" and "length seps = length ws"
      and "list_all (\<lambda>r. r \<noteq> [] \<and> list_all isspace r) seps"
      and "list_all isspace lead" and "list_all isspace trail"
      and "int (length w) \<le> max_w"
  shows "\<exists>groups. [] \<notin> set groups \<and> concat groups = w # ws \<and>
           wrap_text (lead @ weave (w # ws) seps @ trail) max_w =
             join (lit [CHR 0x0A]) (map (join (lit '' '')) groups)"
proof -
  have "split (lead @ weave (w # ws) seps @ trail) = w # ws"
    using assms by (intro split_weave) simp_all
  then show ?thesis
    using wrap_text_first_word_fits[of "lead @ weave (w # ws) seps @ trail" w ws max_w] assms(6)
    by simp
qed


section \<open>Facts about the pipeline\<close>

lemmas sample_defs = sample_prefs_def sample_settings_def sample_env_def sample_int_def
  sample_float_def sample_repr_def is_digit_def sample_request_def offline_def answers_def

lemma lit_nonempty: "lit (c # cs) \<noteq> []"
  by (simp add: lit_def)

lemma sample_parse: "parse_prefs (sample_env post_fn) sample_prefs = Inr sample_settings"
  by (simp add: parse_prefs_def sample_defs and_then_def getitem_def to_int_def to_float_def lit_def)

lemma wrap_hello: "wrap_text (lit ''hello world'') 20 = lit ''hello world''"
  by (simp add: wrap_text_def split_def lit_def isspace_def strip_def)

text \<open>\<open>query\<close> on the empty string returns the blank prompt and sends nothing.\<close>

lemma query_blank:
  "query E [] sp ak t mt tp fp pp md =
   (Inr (RenderResultListAction
      [ExtensionResultItem EXTENSION_ICON (lit ''Type in a prompt...'') None DoNothingAction]), [])"
  by (simp add: query_def)

lemma query_sends:
  "search_term \<noteq> [] \<Longrightarrow>
   snd (query E search_term sp ak t mt tp fp pp md) =
   [Request ENDPOINT (request_headers ak) (request_body search_term sp t mt tp fp pp md) 10]"
  by (simp add: query_def Let_def split: sum.split)

lemma body_messages:
  "subscript (request_body search_term sp t mt tp fp pp md) (lit ''messages'') =
   Inr (JArr [JObj [(lit ''role'', JStr (lit ''system'')), (lit ''content'', JStr sp)],
              JObj [(lit ''role'', JStr (lit ''user'')), (lit ''content'', JStr search_term)]])"
  by (simp add: request_body_def)

lemma items_loop_contents:
  "list_all2 (\<lambda>choice content. choice_content choice = Inr (JStr content)) choices contents \<Longrightarrow>
   items_loop choices lw items =
   Inr (items @ map (\<lambda>content. ExtensionResultItem EXTENSION_ICON (lit ''Assistant'')
          (Some (wrap_text content lw)) (CopyToClipboardAction (wrap_text content lw)))
        contents)"
  by (induction choices contents arbitrary: items rule: list_all2_induct) (simp_all add: Let_def)

text \<open>
  What \<open>create_items\<close> raises when the first \<open>try\<close> block fails: the message read from
  the body if it is a string, the fixed message if none can be read.
\<close>

lemma create_items_service_error:
  "get_choices response = Inl v \<Longrightarrow> create_items E response lw = Inl (service_error E v)"
  by (simp add: create_items_def)

lemma get_choices_undecodable: "json_result r = None \<Longrightarrow> get_choices (Response r) = Inl (Response r)"
  by (simp add: get_choices_def)

lemma get_choices_no_choices:
  "json_result r = Some body \<Longrightarrow> subscript body (lit ''choices'') = Inl err \<Longrightarrow>
   get_choices (Response r) = Inl (Decoded body)"
  by (simp add: get_choices_def)

lemma service_error_string:
  "and_then (pyval_subscript v (lit ''error'')) (\<lambda>e. subscript e (lit ''message'')) = Inr (JStr m) \<Longrightarrow>
   service_error E v = Exception (py_str E v @ m)"
  by (simp add: service_error_def)

lemma service_error_fallback:
  "and_then (pyval_subscript v (lit ''error'')) (\<lambda>e. subscript e (lit ''message'')) = Inl err \<Longrightarrow>
   service_error E v = Exception (py_str E v @ lit ''Unknown error, please check logs for more info'')"
  by (simp add: service_error_def)

lemma create_items_undecodable:
  "json_result r = None \<Longrightarrow>
   create_items E (Response r) lw =
   Inl (Exception (py_str E (Response r) @ lit ''Unknown error, please check logs for more info''))"
  by (simp add: create_items_def get_choices_def service_error_def pyval_subscript_def and_then_def)

text \<open>The listeners: what is caught and what is sent.\<close>

lemma prefs_error_item:
  "parse_prefs E preferences = Inl err \<Longrightarrow>
   KeywordQuery_on_event E argument preferences = (Inr [prefs_failed_item E err], []) \<and>
   ItemEnter_on_event E event_data preferences = (Inr [prefs_failed_item E err], [])"
  by (simp add: KeywordQuery_on_event_def ItemEnter_on_event_def)

lemma run_query_transport_error:
  "search_term \<noteq> [] \<Longrightarrow>
   post E (Request ENDPOINT (request_headers (api_key s))
      (request_body search_term (system_prompt s) (temperature s) (max_tokens s) (top_p s)
         (frequency_penalty s) (presence_penalty s) (model s)) 10) = Inl err \<Longrightarrow>
   fst (run_query E s search_term) = Inr [request_failed_item E err]"
  by (simp add: run_query_def query_def Let_def)

lemma run_query_answer:
  "search_term \<noteq> [] \<Longrightarrow>
   post E (Request ENDPOINT (request_headers (api_key s))
      (request_body search_term (system_prompt s) (temperature s) (max_tokens s) (top_p s)
         (frequency_penalty s) (presence_penalty s) (model s)) 10) = Inr r \<Longrightarrow>
   fst (run_query E s search_term) = create_items E (Response r) (line_wrap s)"
  by (simp add: run_query_def query_def Let_def)

lemma run_query_sent:
  "snd (run_query E s search_term) =
   (if search_term = [] then []
    else [Request ENDPOINT (request_headers (api_key s))
      (request_body search_term (system_prompt s) (temperature s) (max_tokens s) (top_p s)
         (frequency_penalty s) (presence_penalty s) (model s)) 10])"
  by (simp add: run_query_def query_def Let_def split: sum.split)

lemma run_query_blank:
  "run_query E s [] =
   (Inl (Exception (py_str E (RenderResultListAction
      [ExtensionResultItem EXTENSION_ICON (lit ''Type in a prompt...'') None DoNothingAction])
      @ lit ''Unknown error, please check logs for more info'')), [])"
  by (simp add: run_query_def query_def create_items_def get_choices_def service_error_def
      pyval_subscript_def and_then_def)

lemma parse_prefs_max_tokens:
  assumes "preferences (lit ''max_tokens'') = Some v" and "py_int E v = Inl m"
  shows "parse_prefs E preferences =
           Inl (case preferences (lit ''api_key'') of
                  None \<Rightarrow> KeyError (lit ''api_key'')
                | Some k \<Rightarrow> ValueError m)"
  using assms by (simp add: parse_prefs_def and_then_def getitem_def to_int_def split: option.split)

section \<open>Properties of the pipeline\<close>

text \<open>
  C4. For a non-empty search term, \<open>query\<close> sends exactly one request, and the entry
  \<open>messages\<close> of its body is a list of exactly two turns: first the system turn, whose
  content is the system prompt as given, then the user turn, whose content is the
  search term as given.
\<close>

theorem query_builds_two_messages:
  assumes "search_term \<noteq> []"
  shows "snd (query E search_term sp ak t mt tp fp pp md) =
           [Request ENDPOINT (request_headers ak) (request_body search_term sp t mt tp fp pp md) 10] \<and>
         subscript (request_body search_term sp t mt tp fp pp md) (lit ''messages'') =
           Inr (JArr [JObj [(lit ''role'', JStr (lit ''system'')), (lit ''content'', JStr sp)],
                      JObj [(lit ''role'', JStr (lit ''user'')), (lit ''content'', JStr search_term)]])"
  using assms by (simp add: query_sends body_messages)

text \<open>Witness for C4: the search term \<open>hi\<close> with the sample settings.\<close>

theorem query_builds_two_messages_witness:
  "lit ''hi'' \<noteq> [] \<and>
   snd (query (sample_env offline) (lit ''hi'') (lit ''sys'') (lit ''k'') (lit ''0.5'') 16 (lit ''1'')
          (lit ''0'') (lit ''0'') (lit ''m'')) = [sample_request (lit ''hi'')] \<and>
   subscript (data (sample_request (lit ''hi''))) (lit ''messages'') =
     Inr (JArr [JObj [(lit ''role'', JStr (lit ''system'')), (lit ''content'', JStr (lit ''sys''))],
                JObj [(lit ''role'', JStr (lit ''user'')), (lit ''content'', JStr (lit ''hi''))]])"
proof -
  have h: "lit ''hi'' \<noteq> []"
    by (simp add: lit_def)
  show ?thesis
    using h query_builds_two_messages[OF h, of "sample_env offline" "lit ''sys''" "lit ''k''"
        "lit ''0.5''" 16 "lit ''1''" "lit ''0''" "lit ''0''" "lit ''m''"]
    by (simp add: sample_request_def)
qed

text \<open>
  C6. When the body decodes, has a list under \<open>choices\<close>, and every choice has a string
  under \<open>message\<close>, \<open>content\<close>, then \<open>create_items\<close> returns one item per choice, in the
  order of the choices: the name is \<open>Assistant\<close>, the description is the content wrapped
  to \<open>line_wrap\<close>, and the action copies that description.
\<close>

theorem create_items_one_item_per_choice:
  assumes "json_result r = Some body"
      and "subscript body (lit ''choices'') = Inr (JArr choices)"
      and "list_all2 (\<lambda>choice content. choice_content choice = Inr (JStr content)) choices contents"
  shows "create_items E (Response r) lw =
           Inr (map (\<lambda>content. ExtensionResultItem EXTENSION_ICON (lit ''Assistant'')
                  (Some (wrap_text content lw)) (CopyToClipboardAction (wrap_text content lw)))
                contents) \<and>
         length contents = length choices"
  using assms items_loop_contents[OF assms(3), of lw "[]"]
  by (simp add: create_items_def get_choices_def and_then_def list_all2_lengthD)

text \<open>Witness for C6: the body with the one choice \<open>hello world\<close>, wrapped to 20.\<close>

theorem create_items_one_item_per_choice_witness:
  "json_result (HttpResponse 200 (Some hello_body)) = Some hello_body \<and>
   subscript hello_body (lit ''choices'') =
     Inr (JArr [JObj [(lit ''message'', JObj [(lit ''role'', JStr (lit ''assistant'')),
        (lit ''content'', JStr (lit ''hello world''))])]]) \<and>
   list_all2 (\<lambda>choice content. choice_content choice = Inr (JStr content))
     [JObj [(lit ''message'', JObj [(lit ''role'', JStr (lit ''assistant'')),
        (lit ''content'', JStr (lit ''hello world''))])]] [lit ''hello world''] \<and>
   create_items (sample_env offline) (Response (HttpResponse 200 (Some hello_body))) 20 =
     Inr [ExtensionResultItem EXTENSION_ICON (lit ''Assistant'') (Some (lit ''hello world''))
            (CopyToClipboardAction (lit ''hello world''))]"
proof -
  have h1: "json_result (HttpResponse 200 (Some hello_body)) = Some hello_body"
    by simp
  have h2: "subscript hello_body (lit ''choices'') =
     Inr (JArr [JObj [(lit ''message'', JObj [(lit ''role'', JStr (lit ''assistant'')),
        (lit ''content'', JStr (lit ''hello world''))])]])"
    by (simp add: hello_body_def)
  have h3: "list_all2 (\<lambda>choice content. choice_content choice = Inr (JStr content))
     [JObj [(lit ''message'', JObj [(lit ''role'', JStr (lit ''assistant'')),
        (lit ''content'', JStr (lit ''hello world''))])]] [lit ''hello world'']"
    by (simp add: choice_content_def and_then_def lit_def)
  show ?thesis
    using h1 h2 h3 create_items_one_item_per_choice[OF h1 h2 h3, of "sample_env offline" 20]
    by (simp add: wrap_hello)
qed

text \<open>
  C3. A body without \<open>choices\<close> makes \<open>create_items\<close> raise an exception whose text is
  \<open>str(response)\<close> followed by the message under \<open>error\<close>, \<open>message\<close>, or by the fixed
  message where that cannot be read (\<open>service_error_string\<close>, \<open>service_error_fallback\<close>).
  The inner \<open>try\<close> guards the reading only, not the concatenation: for the body
  \<open>{"error": {"message": null}}\<close> the reading succeeds with \<open>None\<close>, and
  \<open>str(response) + errMsg\<close> raises a \<open>TypeError\<close> that carries neither message.
\<close>

theorem create_items_null_message_type_error:
  "subscript null_message_body (lit ''choices'') = Inl (KeyError (lit ''choices'')) \<and>
   and_then (subscript null_message_body (lit ''error'')) (\<lambda>e. subscript e (lit ''message'')) = Inr JNull \<and>
   create_items E (Response (HttpResponse 500 (Some null_message_body))) lw = Inl TypeError"
  by (simp add: create_items_def get_choices_def service_error_def pyval_subscript_def
      and_then_def null_message_body_def lit_def)

text \<open>
  C5. On the empty string \<open>query\<close> returns the blank prompt and sends nothing
  (\<open>query_blank\<close>), but both listeners hand what \<open>query\<close> returns to \<open>create_items\<close>,
  which takes it for a response: the \<open>RenderResultListAction\<close> has no method \<open>json\<close>,
  so the \<open>except\<close> branch runs and raises, and the exception leaves \<open>on_event\<close>. No
  item is returned; no request is sent, whatever the network.
\<close>

theorem blank_prompt_raises:
  "ItemEnter_on_event (sample_env post_fn) [] sample_prefs =
     (Inl (Exception (sample_str (RenderResultListAction
        [ExtensionResultItem EXTENSION_ICON (lit ''Type in a prompt...'') None DoNothingAction])
        @ lit ''Unknown error, please check logs for more info'')), []) \<and>
   KeywordQuery_on_event (sample_env post_fn) (Some []) sample_prefs =
     (Inl (Exception (sample_str (RenderResultListAction
        [ExtensionResultItem EXTENSION_ICON (lit ''Type in a prompt...'') None DoNothingAction])
        @ lit ''Unknown error, please check logs for more info'')), [])"
  by (simp add: ItemEnter_on_event_def KeywordQuery_on_event_def sample_parse run_query_blank
      str_argument_def) (simp add: sample_env_def sample_settings_def)

text \<open>
  C1. A preference that does not parse and a request that fails are caught and become
  one item each (\<open>prefs_error_item\<close>, \<open>run_query_transport_error\<close>). The exception that
  \<open>create_items\<close> raises for a response without \<open>choices\<close> is not: \<open>create_items\<close> is
  called after the \<open>try\<close> block, in both listeners. For the answer
  \<open>{"error": {"message": "bad key"}}\<close> the request is sent and the exception leaves
  \<open>on_event\<close>; no item is returned.
\<close>

theorem service_error_escapes_on_event:
  "KeywordQuery_on_event (sample_env (answers (HttpResponse 401 (Some bad_key_body))))
       (Some (lit ''hi'')) sample_prefs =
     (Inl (Exception (sample_str (Decoded bad_key_body) @ lit ''bad key'')),
      [sample_request (lit ''hi'')]) \<and>
   ItemEnter_on_event (sample_env (answers (HttpResponse 401 (Some bad_key_body))))
       (lit ''hi'') sample_prefs =
     (Inl (Exception (sample_str (Decoded bad_key_body) @ lit ''bad key'')),
      [sample_request (lit ''hi'')])"
proof -
  let ?E = "sample_env (answers (HttpResponse 401 (Some bad_key_body)))"
  have "run_query ?E sample_settings (lit ''hi'') =
     (Inl (Exception (sample_str (Decoded bad_key_body) @ lit ''bad key'')),
      [sample_request (lit ''hi'')])"
    by (simp add: run_query_def query_def Let_def create_items_def get_choices_def
        service_error_def pyval_subscript_def and_then_def bad_key_body_def sample_env_def
        sample_settings_def sample_request_def answers_def lit_def)
  then show ?thesis
    by (simp add: KeywordQuery_on_event_def ItemEnter_on_event_def sample_parse str_argument_def
        sample_settings_def)
qed

text \<open>
  C7, as stated: a \<open>max_tokens\<close> that is no integer fails with an error that refers to
  the field \<open>max_tokens\<close>. The error is the \<open>ValueError\<close> that \<open>int\<close> raises, whose text
  is made from the value and not from the key: \<open>abc\<close> under \<open>max_tokens\<close> and \<open>abc\<close>
  under \<open>line_wrap\<close> (with a \<open>max_tokens\<close> that parses) give the same error,
  \<open>invalid literal for int() with base 10: 'abc'\<close>.
\<close>

theorem parse_prefs_error_names_no_field:
  "parse_prefs (sample_env offline) (sample_prefs(lit ''max_tokens'' \<mapsto> lit ''abc'')) =
     Inl (ValueError (lit ''invalid literal for int() with base 10: '' @ [39] @ lit ''abc'' @ [39])) \<and>
   parse_prefs (sample_env offline) (sample_prefs(lit ''line_wrap'' \<mapsto> lit ''abc'')) =
     Inl (ValueError (lit ''invalid literal for int() with base 10: '' @ [39] @ lit ''abc'' @ [39]))"
  by (simp add: parse_prefs_def sample_defs and_then_def getitem_def to_int_def to_float_def lit_def)

text \<open>
  C7, amended: when \<open>int\<close> raises on the value under \<open>max_tokens\<close>, \<open>parse_prefs\<close> fails
  with that \<open>ValueError\<close>, whose text \<open>m\<close> is the one that \<open>int\<close> gives for the value and
  does not depend on the field (or with the \<open>KeyError\<close> for \<open>api_key\<close>, read first, when
  that is missing); either listener then returns exactly one item, named
  \<open>Failed to parse preferences: \<close> and the error text, whose action copies the error
  text, and no request is sent.
\<close>

theorem bad_max_tokens_one_error_item:
  assumes "preferences (lit ''max_tokens'') = Some v" and "py_int E v = Inl m"
  shows "\<exists>err. parse_prefs E preferences = Inl err \<and>
           err = (case preferences (lit ''api_key'') of
                    None \<Rightarrow> KeyError (lit ''api_key'')
                  | Some k \<Rightarrow> ValueError m) \<and>
           KeywordQuery_on_event E argument preferences =
             (Inr [ExtensionResultItem EXTENSION_ICON
                     (lit ''Failed to parse preferences: '' @ str_exn E err) None
                     (CopyToClipboardAction (str_exn E err))], []) \<and>
           ItemEnter_on_event E event_data preferences =
             (Inr [ExtensionResultItem EXTENSION_ICON
                     (lit ''Failed to parse preferences: '' @ str_exn E err) None
                     (CopyToClipboardAction (str_exn E err))], [])"
  using parse_prefs_max_tokens[of preferences v E m] assms
  by (simp add: prefs_error_item prefs_failed_item_def)

text \<open>Witness for C7, amended: the sample preferences with \<open>abc\<close> under \<open>max_tokens\<close>.\<close>

theorem bad_max_tokens_one_error_item_witness:
  "(sample_prefs(lit ''max_tokens'' \<mapsto> lit ''abc'')) (lit ''max_tokens'') = Some (lit ''abc'') \<and>
   py_int (sample_env offline) (lit ''abc'') =
     Inl (lit ''invalid literal for int() with base 10: '' @ [39] @ lit ''abc'' @ [39]) \<and>
   KeywordQuery_on_event (sample_env offline) (Some (lit ''hi''))
       (sample_prefs(lit ''max_tokens'' \<mapsto> lit ''abc'')) =
     (Inr [ExtensionResultItem EXTENSION_ICON
             (lit ''Failed to parse preferences: invalid literal for int() with base 10: ''
                @ [39] @ lit ''abc'' @ [39])
             None
             (CopyToClipboardAction
                (lit ''invalid literal for int() with base 10: '' @ [39] @ lit ''abc'' @ [39]))],
      [])"
proof -
  have h1: "(sample_prefs(lit ''max_tokens'' \<mapsto> lit ''abc'')) (lit ''max_tokens'') = Some (lit ''abc'')"
    by simp
  have h2: "py_int (sample_env offline) (lit ''abc'') =
     Inl (lit ''invalid literal for int() with base 10: '' @ [39] @ lit ''abc'' @ [39])"
    by (simp add: sample_env_def sample_int_def sample_repr_def is_digit_def lit_def)
  show ?thesis
    using h1 h2 bad_max_tokens_one_error_item[of "sample_prefs(lit ''max_tokens'' \<mapsto> lit ''abc'')"
        "lit ''abc''" "sample_env offline"
        "lit ''invalid literal for int() with base 10: '' @ [39] @ lit ''abc'' @ [39]"
        "Some (lit ''hi'')" "[]"]
    by (simp add: sample_prefs_def lit_def)
qed

text \<open>
  C10, as stated: without an argument the keyword listener sends a request whose user
  turn is \<open>None\<close>. With \<open>wait_before_query\<close> set to 1 it sends nothing: it returns the
  item that waits for Enter, which carries \<open>None\<close> as its data.
\<close>

theorem none_argument_waits_for_enter:
  "KeywordQuery_on_event (sample_env offline) None (sample_prefs(lit ''wait_before_query'' \<mapsto> lit ''1'')) =
     (Inr [ExtensionResultItem EXTENSION_ICON (lit ''Waiting until Enter is pressed: None'') None
             (ExtensionCustomAction (lit ''None'') True)], [])"
  by (simp add: KeywordQuery_on_event_def waiting_item_def str_argument_def Let_def
      parse_prefs_def sample_defs and_then_def getitem_def to_int_def to_float_def lit_def)

text \<open>
  C10, amended: when the preferences parse, the keyword listener without an argument
  uses the string \<open>None\<close> as the search term. If \<open>wait_before_query\<close> is 0 it runs the
  query on it: the blank prompt is not taken, and exactly one request is sent, whose
  user turn has the content \<open>None\<close>. Otherwise it returns the item that waits for
  Enter with \<open>None\<close> as its data, and sends nothing.
\<close>

theorem none_argument_is_the_prompt:
  assumes "parse_prefs E preferences = Inr s"
  shows "KeywordQuery_on_event E None preferences =
           (if wait_for_enter s = 0 then run_query E s (lit ''None'')
            else (Inr [waiting_item (lit ''None'')], [])) \<and>
         snd (run_query E s (lit ''None'')) =
           [Request ENDPOINT (request_headers (api_key s))
              (request_body (lit ''None'') (system_prompt s) (temperature s) (max_tokens s) (top_p s)
                 (frequency_penalty s) (presence_penalty s) (model s)) 10] \<and>
         subscript (request_body (lit ''None'') (system_prompt s) (temperature s) (max_tokens s)
                 (top_p s) (frequency_penalty s) (presence_penalty s) (model s)) (lit ''messages'') =
           Inr (JArr [JObj [(lit ''role'', JStr (lit ''system'')), (lit ''content'', JStr (system_prompt s))],
                      JObj [(lit ''role'', JStr (lit ''user'')), (lit ''content'', JStr (lit ''None''))]])"
  using assms
  by (simp add: KeywordQuery_on_event_def str_argument_def Let_def run_query_sent body_messages
      lit_nonempty)

text \<open>
  Witness for C10, amended: the sample preferences (no waiting) and a network that is
  down. The request with the user turn \<open>None\<close> is sent, and its failure is shown.
\<close>

theorem none_argument_is_the_prompt_witness:
  "parse_prefs (sample_env offline) sample_prefs = Inr sample_settings \<and>
   wait_for_enter sample_settings = 0 \<and>
   KeywordQuery_on_event (sample_env offline) None sample_prefs =
     (Inr [ExtensionResultItem EXTENSION_ICON (lit ''Request failed: connection refused'') None
             (CopyToClipboardAction (lit ''connection refused''))],
      [sample_request (lit ''None'')])"
proof -
  have h: "parse_prefs (sample_env offline) sample_prefs = Inr sample_settings"
    by (rule sample_parse)
  have r: "run_query (sample_env offline) sample_settings (lit ''None'') =
     (Inr [ExtensionResultItem EXTENSION_ICON (lit ''Request failed: connection refused'') None
             (CopyToClipboardAction (lit ''connection refused''))],
      [sample_request (lit ''None'')])"
    by (simp add: run_query_def query_def Let_def request_failed_item_def sample_env_def
        sample_settings_def sample_request_def offline_def lit_def)
  show ?thesis
    using h none_argument_is_the_prompt[OF h] by (simp add: r) (simp add: sample_settings_def)
qed

end
